theory Spec2Isabelle
  imports Complex_Main "HOL-Library.AList"
begin

section \<open>Python text\<close>

text \<open>
  A Python \<open>str\<close> is modelled as a \<open>string\<close> whose characters stand for the code points
  below 256. \<open>char_lower\<close>, \<open>isspace\<close> and \<open>strip\<close> follow \<open>str.lower\<close>, \<open>str.isspace\<close>
  and \<open>str.strip\<close> on that range.
\<close>

definition upper_chars :: string where
  "upper_chars = ''ABCDEFGHIJKLMNOPQRSTUVWXYZ'' @
     [CHR 0xC0, CHR 0xC1, CHR 0xC2, CHR 0xC3, CHR 0xC4, CHR 0xC5, CHR 0xC6, CHR 0xC7,
      CHR 0xC8, CHR 0xC9, CHR 0xCA, CHR 0xCB, CHR 0xCC, CHR 0xCD, CHR 0xCE, CHR 0xCF,
      CHR 0xD0, CHR 0xD1, CHR 0xD2, CHR 0xD3, CHR 0xD4, CHR 0xD5, CHR 0xD6,
      CHR 0xD8, CHR 0xD9, CHR 0xDA, CHR 0xDB, CHR 0xDC, CHR 0xDD, CHR 0xDE]"

definition lower_chars :: string where
  "lower_chars = ''abcdefghijklmnopqrstuvwxyz'' @
     [CHR 0xE0, CHR 0xE1, CHR 0xE2, CHR 0xE3, CHR 0xE4, CHR 0xE5, CHR 0xE6, CHR 0xE7,
      CHR 0xE8, CHR 0xE9, CHR 0xEA, CHR 0xEB, CHR 0xEC, CHR 0xED, CHR 0xEE, CHR 0xEF,
      CHR 0xF0, CHR 0xF1, CHR 0xF2, CHR 0xF3, CHR 0xF4, CHR 0xF5, CHR 0xF6,
      CHR 0xF8, CHR 0xF9, CHR 0xFA, CHR 0xFB, CHR 0xFC, CHR 0xFD, CHR 0xFE]"

definition char_lower :: "char \<Rightarrow> char" where
  "char_lower c = (case map_of (zip upper_chars lower_chars) c of None \<Rightarrow> c | Some l \<Rightarrow> l)"

definition lower :: "string \<Rightarrow> string" where
  "lower s = map char_lower s"

definition isspace :: "char \<Rightarrow> bool" where
  "isspace c = (c \<in> set [CHR 0x09, CHR 0x0A, CHR 0x0B, CHR 0x0C, CHR 0x0D, CHR 0x1C, CHR 0x1D,
                            CHR 0x1E, CHR 0x1F, CHR 0x20, CHR 0x85, CHR 0xA0])"

definition strip :: "string \<Rightarrow> string" where
  "strip s = rev (dropWhile isspace (rev (dropWhile isspace s)))"

text \<open>\<open>word.replace(old, new, 1)\<close> for a one-character \<open>old\<close>.\<close>

fun replace_first :: "char \<Rightarrow> string \<Rightarrow> string \<Rightarrow> string" where
  "replace_first old new [] = []"
| "replace_first old new (c # cs) = (if c = old then new @ cs else c # replace_first old new cs)"

definition ESC :: char where "ESC = CHR 0x1B"
definition ANSI_CURRENT :: string where "ANSI_CURRENT = ESC # ''[32m''"
definition ANSI_ERROR :: string where "ANSI_ERROR = ESC # ''[31m''"
definition ANSI_RESET :: string where "ANSI_RESET = ESC # ''[m''"
definition ANSI_UNDERLINE :: string where "ANSI_UNDERLINE = ESC # ''[4m''"
definition INDENT :: string where "INDENT = ''    ''"

definition indent :: "nat \<Rightarrow> string" where
  "indent level = concat (replicate level INDENT)"

section \<open>The configuration document and the process state\<close>

text \<open>
  A \<open>ConfigParser\<close> holds its sections in insertion order, each section its options in
  insertion order; both are association lists here. Option names pass through
  \<open>optionxform\<close> (lower case) at every access, as the parser does. The model reads values
  raw and has no entries in the parser's \<open>DEFAULT\<close> section: it covers documents without
  interpolation markers and without defaults, which is the document of the specification
  (section, option, stored text).
\<close>

type_synonym options = "(string \<times> string) list"
type_synonym config = "(string \<times> options) list"

datatype exn =
    SystemExit nat
  | EOFError
  | UnboundLocalError
  | IndexError
  | KeyError
  | NoSectionError
  | NoOptionError
  | RuntimeError
  | DuplicateSectionError
  | ValueError string
  | SyntaxError string
  | OverflowError string
  | TypeError string
  | MemoryError string
  | RecursionError string

datatype out = Line string | Prompt string

text \<open>
  The process state: the lines still to be read from the console, what has been written
  to it (\<open>Line\<close> for \<open>print\<close>, \<open>Prompt\<close> for the text of \<open>input\<close>), the configuration
  file and its encrypted sibling (\<open>None\<close>: the file does not exist; the encrypted
  artifact is the document with the key it was encrypted to), whether the \<open>gnupg\<close>
  module failed to import, the fingerprints of the key store, and the number of backups
  requested.
\<close>

record world =
  stdin :: "string list"
  stdout :: "out list"
  plain_file :: "config option"
  gpg_file :: "(config \<times> string) option"
  gnupg_import_error :: bool
  gpg_keys :: "string list"
  backups :: nat

type_synonym 'a io = "world \<Rightarrow> (exn + 'a) \<times> world"

definition print :: "string \<Rightarrow> world \<Rightarrow> world" where
  "print s w = w\<lparr>stdout := stdout w @ [Line s]\<rparr>"

definition input :: "string \<Rightarrow> string io" where
  "input p w =
     (let w1 = w\<lparr>stdout := stdout w @ [Prompt p]\<rparr>
      in case stdin w1 of
           [] \<Rightarrow> (Inl EOFError, w1)
         | l # ls \<Rightarrow> (Inr l, w1\<lparr>stdin := ls\<rparr>))"

section \<open>The mnemonic prompt: \<open>tidy_answer\<close>\<close>

record mnemonic_state =
  initialism :: string
  previous_initialism :: string
  mnemonics :: "char option"
  prompt :: "string option"

text \<open>The inner \<open>for\<close> loop over the characters of a word, left at the first \<open>break\<close>.\<close>

fun scan_word :: "string \<Rightarrow> mnemonic_state \<Rightarrow> mnemonic_state" where
  "scan_word [] s = s"
| "scan_word (c # cs) s =
     (if char_lower c \<notin> set (initialism s)
      then s\<lparr>mnemonics := Some c, initialism := initialism s @ [char_lower c]\<rparr>
      else scan_word cs s)"

text \<open>The outer \<open>for\<close> loop over the answers; \<open>None\<close> is a variable not yet bound.\<close>

fun mnemonic_loop :: "nat \<Rightarrow> string list \<Rightarrow> mnemonic_state \<Rightarrow> mnemonic_state io" where
  "mnemonic_loop word_index [] s w = (Inr s, w)"
| "mnemonic_loop word_index (word # rest) s w =
     (let s1 = scan_word word s
      in if initialism s1 = previous_initialism s1
         then (Inl (SystemExit 1), print ''Undetermined mnemonics.'' w)
         else (case mnemonics s1 of
                 None \<Rightarrow> (Inl UnboundLocalError, w)
               | Some m \<Rightarrow>
                   let highlighted_word =
                         replace_first m (ANSI_UNDERLINE @ [m] @ ANSI_RESET) word
                   in if word_index = 0
                      then mnemonic_loop (Suc word_index) rest
                             (s1\<lparr>previous_initialism := initialism s1,
                                 prompt := Some highlighted_word\<rparr>) w
                      else (case prompt s1 of
                              None \<Rightarrow> (Inl UnboundLocalError, w)
                            | Some p \<Rightarrow>
                                mnemonic_loop (Suc word_index) rest
                                  (s1\<lparr>previous_initialism := initialism s1,
                                      prompt := Some (p @ ''/'' @ highlighted_word)\<rparr>) w)))"

definition initial_mnemonic_state :: mnemonic_state where
  "initial_mnemonic_state =
     \<lparr>initialism = [], previous_initialism = [], mnemonics = None, prompt = None\<rparr>"

text \<open>
  The last loop of \<open>tidy_answer\<close>: \<open>index\<close> runs over the initialism (\<open>n\<close> positions are
  left), and \<open>answer\<close> is overwritten while the loop goes on.
\<close>

fun pick_answer :: "string \<Rightarrow> string list \<Rightarrow> nat \<Rightarrow> nat \<Rightarrow> string \<Rightarrow> exn + string" where
  "pick_answer ini answers index 0 answer = Inr answer"
| "pick_answer ini answers index (Suc n) answer =
     (case answer of
        [] \<Rightarrow> Inl IndexError
      | a # _ \<Rightarrow>
          if ini ! index = a
          then (if index < length answers
                then pick_answer ini answers (Suc index) n (answers ! index)
                else Inl IndexError)
          else pick_answer ini answers (Suc index) n answer)"

definition tidy_answer :: "string list \<Rightarrow> nat \<Rightarrow> string io" where
  "tidy_answer answers level w =
     (case mnemonic_loop 0 answers initial_mnemonic_state w of
        (Inl e, w1) \<Rightarrow> (Inl e, w1)
      | (Inr s, w1) \<Rightarrow>
          (case prompt s of
             None \<Rightarrow> (Inl UnboundLocalError, w1)
           | Some p \<Rightarrow>
               (case input (indent level @ p @ '': '') w1 of
                  (Inl e, w2) \<Rightarrow> (Inl e, w2)
                | (Inr line, w2) \<Rightarrow>
                    (let answer = lower (strip line)
                     in if answer \<noteq> []
                        then (if hd answer \<notin> set (initialism s)
                              then (Inr [], w2)
                              else (case pick_answer (initialism s) answers 0
                                           (length (initialism s)) answer of
                                      Inl e \<Rightarrow> (Inl e, w2)
                                    | Inr a \<Rightarrow> (Inr a, w2)))
                        else (Inr answer, w2)))))"

section \<open>Python values and their text\<close>

text \<open>
  The values that \<open>ast.literal_eval\<close> returns and \<open>str\<close> prints: text, tuples, lists and
  dictionaries (in insertion order); \<open>POther\<close> stands for a literal of any other type
  (a number, \<open>None\<close>, a boolean, bytes, a set), given by its \<open>repr\<close>.
\<close>

datatype pyval =
    PStr string
  | PTuple "pyval list"
  | PList "pyval list"
  | PDict "(pyval \<times> pyval) list"
  | POther string

definition SQ :: char where "SQ = CHR 0x27"
definition DQ :: char where "DQ = CHR 0x22"
definition BS :: char where "BS = CHR 0x5C"

definition hex_chars :: string where
  "hex_chars = ''0123456789abcdef''"

definition hex2 :: "char \<Rightarrow> string" where
  "hex2 c = [hex_chars ! ((of_char c :: nat) div 16), hex_chars ! ((of_char c :: nat) mod 16)]"

definition printable :: "char \<Rightarrow> bool" where
  "printable c = (let n = (of_char c :: nat) in (32 \<le> n \<and> n < 127) \<or> (161 \<le> n \<and> n \<noteq> 173))"

text \<open>\<open>repr\<close> of a \<open>str\<close>: the quote is chosen first, then each character is escaped.\<close>

definition escape_char :: "char \<Rightarrow> char \<Rightarrow> string" where
  "escape_char quote c =
     (if c = quote \<or> c = BS then [BS, c]
      else if c = CHR 0x09 then [BS, CHR ''t'']
      else if c = CHR 0x0A then [BS, CHR ''n'']
      else if c = CHR 0x0D then [BS, CHR ''r'']
      else if printable c then [c]
      else BS # CHR ''x'' # hex2 c)"

definition repr_str :: "string \<Rightarrow> string" where
  "repr_str s =
     (let quote = (if SQ \<in> set s \<and> DQ \<notin> set s then DQ else SQ)
      in quote # concat (map (escape_char quote) s) @ [quote])"

function (sequential) py_repr :: "pyval \<Rightarrow> string"
  and repr_items :: "pyval list \<Rightarrow> string"
  and repr_pairs :: "(pyval \<times> pyval) list \<Rightarrow> string" where
  "py_repr (PStr s) = repr_str s"
| "py_repr (PTuple []) = ''()''"
| "py_repr (PTuple [x]) = ''('' @ py_repr x @ '',)''"
| "py_repr (PTuple (x # y # ys)) = ''('' @ repr_items (x # y # ys) @ '')''"
| "py_repr (PList xs) = ''['' @ repr_items xs @ '']''"
| "py_repr (PDict kvs) = ''{'' @ repr_pairs kvs @ ''}''"
| "py_repr (POther r) = r"
| "repr_items [] = []"
| "repr_items [x] = py_repr x"
| "repr_items (x # y # ys) = py_repr x @ '', '' @ repr_items (y # ys)"
| "repr_pairs [] = []"
| "repr_pairs [(k, v)] = py_repr k @ '': '' @ py_repr v"
| "repr_pairs ((k, v) # kv # kvs) = py_repr k @ '': '' @ py_repr v @ '', '' @ repr_pairs (kv # kvs)"
  by pat_completeness auto
termination
  by (relation "measure (case_sum size
         (case_sum (size_list size) (size_list (size_prod size size))))") auto

text \<open>\<open>str(x)\<close>: the text itself for a \<open>str\<close>, the \<open>repr\<close> otherwise.\<close>

definition py_str :: "pyval \<Rightarrow> string" where
  "py_str v = (case v of PStr s \<Rightarrow> s | _ \<Rightarrow> py_repr v)"

section \<open>The value prompt: \<open>prompt_for_input\<close> and \<open>modify_value\<close>\<close>

text \<open>
  \<open>all_values\<close> is \<open>None\<close>, a tuple or a list of words. \<open>pt_prompt\<close> of the prompt toolkit
  reads one line as \<open>input\<close> does; its completer only proposes words while the line is
  typed.
\<close>

datatype seq_kind = PyTuple | PyList

type_synonym choices = "(seq_kind \<times> string list) option"

definition truthy :: "choices \<Rightarrow> bool" where
  "truthy all_values = (case all_values of None \<Rightarrow> False | Some (_, vs) \<Rightarrow> vs \<noteq> [])"

definition members :: "choices \<Rightarrow> string list" where
  "members all_values = (case all_values of None \<Rightarrow> [] | Some (_, vs) \<Rightarrow> vs)"

definition pt_prompt :: "string \<Rightarrow> string io" where
  "pt_prompt p w = input p w"

definition prompt_for_input :: "string \<Rightarrow> nat \<Rightarrow> string \<Rightarrow> choices \<Rightarrow> string io" where
  "prompt_for_input label level val all_values w =
     (let prompt_prefix =
            (if val \<noteq> []
             then indent level @ label @ '' '' @ ANSI_CURRENT @ val @ ANSI_RESET @ '': ''
             else indent level @ label @ '': '');
          completer =
            (if truthy all_values then Some (members all_values)
             else if val \<noteq> [] then Some [val]
             else None)
      in case completer of
           Some _ \<Rightarrow>
             (case pt_prompt prompt_prefix w of
                (Inl e, w1) \<Rightarrow> (Inl e, w1)
              | (Inr line, w1) \<Rightarrow> (Inr (if strip line \<noteq> [] then strip line else val), w1))
         | None \<Rightarrow>
             (case input prompt_prefix w of
                (Inl e, w1) \<Rightarrow> (Inl e, w1)
              | (Inr line, w1) \<Rightarrow> (Inr (strip line), w1)))"

datatype pyfloat = Finite rat | NegZero | Infinity | NegInfinity | NaN

datatype number = PyInt int | PyFloat pyfloat

type_synonym limits = "(number option \<times> number option) option"

text \<open>
  What the model takes from the Python runtime as it is: \<open>float\<close> of a text outside the
  syntax that \<open>py_float\<close> reads itself, \<open>repr\<close> of a floating-point number, and
  \<open>ast.literal_eval\<close>.
\<close>

record runtime =
  float_other :: "string \<Rightarrow> exn + pyfloat"
  float_repr :: "pyfloat \<Rightarrow> string"
  literal_eval :: "string \<Rightarrow> exn + pyval"

definition digit_chars :: string where
  "digit_chars = ''0123456789''"

fun digit_value :: "char \<Rightarrow> nat" where
  "digit_value c = length (takeWhile (\<lambda>d. d \<noteq> c) digit_chars)"

definition nat_of_digits :: "string \<Rightarrow> nat" where
  "nat_of_digits s = foldl (\<lambda>n c. 10 * n + digit_value c) 0 s"

definition py_float :: "runtime \<Rightarrow> string \<Rightarrow> exn + pyfloat" where
  "py_float rt s =
     (let t = strip s;
          negative = (t \<noteq> [] \<and> hd t = CHR ''-'');
          body = (if t \<noteq> [] \<and> (hd t = CHR ''-'' \<or> hd t = CHR ''+'') then tl t else t)
      in if lower body = ''inf'' \<or> lower body = ''infinity''
         then Inr (if negative then NegInfinity else Infinity)
         else if lower body = ''nan'' then Inr NaN
         else if body \<noteq> [] \<and> (\<forall>c\<in>set body. c \<in> set digit_chars)
                 \<and> nat_of_digits body \<le> 2 ^ 53
         then Inr (if negative \<and> nat_of_digits body = 0 then NegZero
                   else if negative then Finite (- of_nat (nat_of_digits body))
                   else Finite (of_nat (nat_of_digits body)))
         else float_other rt s)"

definition py_int :: "pyfloat \<Rightarrow> exn + int" where
  "py_int x =
     (case x of
        Finite r \<Rightarrow> Inr (if 0 \<le> r then \<lfloor>r\<rfloor> else \<lceil>r\<rceil>)
      | NegZero \<Rightarrow> Inr 0
      | Infinity \<Rightarrow> Inl (OverflowError ''cannot convert float infinity to integer'')
      | NegInfinity \<Rightarrow> Inl (OverflowError ''cannot convert float infinity to integer'')
      | NaN \<Rightarrow> Inl (ValueError ''cannot convert float NaN to integer''))"

fun str_nat :: "nat \<Rightarrow> string" where
  "str_nat n = (if n < 10 then [digit_chars ! n] else str_nat (n div 10) @ [digit_chars ! (n mod 10)])"

definition str_int :: "int \<Rightarrow> string" where
  "str_int i = (if i < 0 then CHR ''-'' # str_nat (nat (- i)) else str_nat (nat i))"

fun float_less :: "pyfloat \<Rightarrow> pyfloat \<Rightarrow> bool" where
  "float_less NaN y = False"
| "float_less x NaN = False"
| "float_less Infinity y = False"
| "float_less x Infinity = True"
| "float_less x NegInfinity = False"
| "float_less NegInfinity y = True"
| "float_less NegZero NegZero = False"
| "float_less NegZero (Finite r) = (0 < r)"
| "float_less (Finite r) NegZero = (r < 0)"
| "float_less (Finite r) (Finite q) = (r < q)"

fun number_less :: "number \<Rightarrow> number \<Rightarrow> bool" where
  "number_less (PyInt a) (PyInt b) = (a < b)"
| "number_less (PyFloat x) (PyFloat y) = float_less x y"
| "number_less (PyInt a) (PyFloat y) = float_less (Finite (of_int a)) y"
| "number_less (PyFloat x) (PyInt b) = float_less x (Finite (of_int b))"

definition py_max :: "number \<Rightarrow> number \<Rightarrow> number" where
  "py_max a b = (if number_less a b then b else a)"

definition py_min :: "number \<Rightarrow> number \<Rightarrow> number" where
  "py_min a b = (if number_less b a then b else a)"

definition str_number :: "runtime \<Rightarrow> number \<Rightarrow> string" where
  "str_number rt n = (case n of PyInt i \<Rightarrow> str_int i | PyFloat x \<Rightarrow> float_repr rt x)"

definition is_int :: "number option \<Rightarrow> bool" where
  "is_int n = (case n of Some (PyInt _) \<Rightarrow> True | _ \<Rightarrow> False)"

definition is_float :: "number option \<Rightarrow> bool" where
  "is_float n = (case n of Some (PyFloat _) \<Rightarrow> True | _ \<Rightarrow> False)"

text \<open>The two \<open>try\<close> blocks of \<open>modify_value\<close>: only \<open>ValueError\<close> is caught.\<close>

definition coerce :: "runtime \<Rightarrow> number option \<Rightarrow> number option \<Rightarrow> string \<Rightarrow> (number option) io" where
  "coerce rt minimum_value maximum_value val w =
     (if is_int minimum_value \<and> is_int maximum_value
      then (case py_float rt val of
              Inl (ValueError e) \<Rightarrow> (Inl (SystemExit 2), print e w)
            | Inl e \<Rightarrow> (Inl e, w)
            | Inr x \<Rightarrow>
                (case py_int x of
                   Inl (ValueError e) \<Rightarrow> (Inl (SystemExit 2), print e w)
                 | Inl e \<Rightarrow> (Inl e, w)
                 | Inr i \<Rightarrow> (Inr (Some (PyInt i)), w)))
      else if is_float minimum_value \<and> is_float maximum_value
      then (case py_float rt val of
              Inl (ValueError e) \<Rightarrow> (Inl (SystemExit 2), print e w)
            | Inl e \<Rightarrow> (Inl e, w)
            | Inr x \<Rightarrow> (Inr (Some (PyFloat x)), w))
      else (Inr None, w))"

definition clamp :: "number option \<Rightarrow> number option \<Rightarrow> number \<Rightarrow> number" where
  "clamp minimum_value maximum_value numeric_value =
     (let n1 = (case minimum_value of None \<Rightarrow> numeric_value | Some lo \<Rightarrow> py_max lo numeric_value)
      in case maximum_value of None \<Rightarrow> n1 | Some hi \<Rightarrow> py_min hi n1)"

function modify_value ::
  "runtime \<Rightarrow> string \<Rightarrow> nat \<Rightarrow> string \<Rightarrow> choices \<Rightarrow> limits \<Rightarrow> string io" where
  "modify_value rt label level val all_values limits w =
     (case prompt_for_input label level val all_values w of
        (Inl e, w1) \<Rightarrow> (Inl e, w1)
      | (Inr entered, w1) \<Rightarrow>
          (let minimum_value = (case limits of None \<Rightarrow> None | Some l \<Rightarrow> fst l);
               maximum_value = (case limits of None \<Rightarrow> None | Some l \<Rightarrow> snd l)
           in case coerce rt minimum_value maximum_value entered w1 of
                (Inl e, w2) \<Rightarrow> (Inl e, w2)
              | (Inr numeric_value, w2) \<Rightarrow>
                  (let v = (case numeric_value of
                              None \<Rightarrow> entered
                            | Some n \<Rightarrow> str_number rt (clamp minimum_value maximum_value n))
                   in if truthy all_values \<and> v \<notin> set (members all_values)
                         \<and> all_values \<noteq> Some (PyTuple, [''None''])
                      then modify_value rt label level (ANSI_RESET @ ANSI_ERROR @ v) all_values None w2
                      else (Inr v, w2))))"
  by pat_completeness auto
termination
proof (relation "measure (\<lambda>(rt, label, level, val, all_values, limits, w). length (stdin w))",
       goal_cases)
  case 1
  show ?case by simp
next
  case (2 rt label level val all_values limits w x y b xa xb xc ya ba xd)
  from 2 have "length (stdin y) < length (stdin w)"
    by (auto simp: prompt_for_input_def pt_prompt_def input_def Let_def
             split: option.splits list.splits if_splits)
  moreover from 2 have "stdin ya = stdin y"
    by (auto simp: coerce_def print_def split: if_splits sum.splits exn.splits)
  ultimately show ?case by simp
qed

declare modify_value.simps [simp del]


section \<open>The document store\<close>

definition optionxform :: "string \<Rightarrow> string" where
  "optionxform option = lower option"

definition has_section :: "config \<Rightarrow> string \<Rightarrow> bool" where
  "has_section config section = (map_of config section \<noteq> None)"

definition has_option :: "config \<Rightarrow> string \<Rightarrow> string \<Rightarrow> bool" where
  "has_option config section option =
     (case map_of config section of
        None \<Rightarrow> False
      | Some opts \<Rightarrow> map_of opts (optionxform option) \<noteq> None)"




text \<open>\<open>config[section][option]\<close>.\<close>

definition get_item :: "config \<Rightarrow> string \<Rightarrow> string \<Rightarrow> exn + string" where
  "get_item config section option =
     (case map_of config section of
        None \<Rightarrow> Inl KeyError
      | Some opts \<Rightarrow>
          (case map_of opts (optionxform option) of
             None \<Rightarrow> Inl KeyError
           | Some v \<Rightarrow> Inr v))"


text \<open>\<open>config[section][option] = v\<close>.\<close>

definition set_item :: "config \<Rightarrow> string \<Rightarrow> string \<Rightarrow> string \<Rightarrow> exn + config" where
  "set_item config section option v =
     (case map_of config section of
        None \<Rightarrow> Inl KeyError
      | Some opts \<Rightarrow>
          Inr (AList.update section (AList.update (optionxform option) v opts) config))"


text \<open>\<open>config.remove_option(section, option)\<close>: whether the option existed, and the document.\<close>

definition remove_option :: "config \<Rightarrow> string \<Rightarrow> string \<Rightarrow> exn + bool \<times> config" where
  "remove_option config section option =
     (case map_of config section of
        None \<Rightarrow> Inl NoSectionError
      | Some opts \<Rightarrow>
          Inr (map_of opts (optionxform option) \<noteq> None,
               AList.update section (AList.delete (optionxform option) opts) config))"

definition add_section :: "config \<Rightarrow> string \<Rightarrow> exn + config" where
  "add_section config section =
     (if has_section config section then Inl DuplicateSectionError
      else Inr (config @ [(section, [])]))"




definition write_config :: "config \<Rightarrow> unit io" where
  "write_config config w =
     (case gpg_file w of
        Some _ \<Rightarrow>
          (if gnupg_import_error w then (Inl RuntimeError, w)
           else (let fingerprint =
                       (if has_option config ''General'' ''fingerprint''
                        then (case get_item config ''General'' ''fingerprint'' of
                                Inr f \<Rightarrow> f | Inl _ \<Rightarrow> [])
                        else [])
                 in if fingerprint \<noteq> []
                    then (Inr (), w\<lparr>gpg_file := Some (config, fingerprint)\<rparr>)
                    else (case gpg_keys w of
                            [] \<Rightarrow> (Inl IndexError, w)
                          | k # _ \<Rightarrow> (Inr (), w\<lparr>gpg_file := Some (config, k)\<rparr>))))
      | None \<Rightarrow> (Inr (), w\<lparr>plain_file := Some config\<rparr>))"

text \<open>
  Modelled from the spec: \<open>file_utilities.backup_file\<close> is not among the sources. The
  specification gives its contract only (back up the file before the first mutation), so
  the model counts the request and leaves the configuration file as it is.
\<close>

definition backup_file :: "world \<Rightarrow> world" where
  "backup_file w = w\<lparr>backups := Suc (backups w)\<rparr>"

text \<open>
  The functions below that change the \<open>ConfigParser\<close> object return it beside the
  process state, also when they raise.
\<close>

type_synonym 'a cio = "world \<Rightarrow> (exn + 'a) \<times> config \<times> world"

definition delete_option :: "config \<Rightarrow> string \<Rightarrow> string \<Rightarrow> bool \<Rightarrow> bool cio" where
  "delete_option config section option backup_parameters w =
     (let w0 = (if backup_parameters then backup_file w else w)
      in if has_option config section option
         then (case remove_option config section option of
                 Inl e \<Rightarrow> (Inl e, config, w0)
               | Inr (_, config1) \<Rightarrow>
                   (case write_config config1 w0 of
                      (Inl e, w1) \<Rightarrow> (Inl e, config1, w1)
                    | (Inr _, w1) \<Rightarrow> (Inr True, config1, w1)))
         else (Inr False, config, print (option @ '' option does not exist.'') w0))"

section \<open>The value codec and the option editor\<close>


definition evaluate_value :: "runtime \<Rightarrow> string \<Rightarrow> (pyval option) io" where
  "evaluate_value rt val w =
     (case literal_eval rt val of
        Inr v \<Rightarrow> (Inr (Some v), w)
      | Inl (SyntaxError _) \<Rightarrow> (Inr None, w)
      | Inl (ValueError _) \<Rightarrow> (Inr None, w)
      | Inl (TypeError e) \<Rightarrow> (Inl (SystemExit 1), print e w)
      | Inl (MemoryError e) \<Rightarrow> (Inl (SystemExit 1), print e w)
      | Inl (RecursionError e) \<Rightarrow> (Inl (SystemExit 1), print e w)
      | Inl e \<Rightarrow> (Inl e, w))"

text \<open>The \<open>isinstance\<close> chain of \<open>modify_option\<close> over the evaluated value.\<close>

datatype kind = Dictionary | Tuple | TupleList | Scalar

definition is_tuple :: "pyval \<Rightarrow> bool" where
  "is_tuple v = (case v of PTuple _ \<Rightarrow> True | _ \<Rightarrow> False)"

definition value_kind :: "pyval option \<Rightarrow> kind" where
  "value_kind evaluated_value =
     (case evaluated_value of
        Some (PDict _) \<Rightarrow> Dictionary
      | Some (PTuple _) \<Rightarrow> Tuple
      | Some (PList items) \<Rightarrow> if list_all is_tuple items then TupleList else Scalar
      | _ \<Rightarrow> Scalar)"

text \<open>
  The editors of structured values (\<open>modify_dictionary\<close>, \<open>modify_tuple\<close>,
  \<open>modify_tuple_list\<close>) are parameters of the option editor: they read the console and
  return the edited value, and nothing below depends on how.
\<close>

record editors =
  modify_dictionary :: "(pyval \<times> pyval) list \<Rightarrow> ((pyval \<times> pyval) list) io"
  modify_tuple :: "pyval list \<Rightarrow> (pyval list) io"
  modify_tuple_list :: "pyval list \<Rightarrow> (pyval list) io"

datatype result = Bool bool | Answer string

definition get_prompt :: "(string \<times> string) list \<Rightarrow> string \<Rightarrow> string \<Rightarrow> string" where
  "get_prompt prompts k d = (case map_of prompts k of None \<Rightarrow> d | Some p \<Rightarrow> p)"




text \<open>The tail of \<open>modify_option\<close>: the value is stored, the file written, \<open>True\<close> returned.\<close>

definition store_and_write :: "config \<Rightarrow> string \<Rightarrow> string \<Rightarrow> string \<Rightarrow> result cio" where
  "store_and_write config section option v w =
     (case set_item config section option v of
        Inl e \<Rightarrow> (Inl e, config, w)
      | Inr config1 \<Rightarrow>
          (case write_config config1 w of
             (Inl e, w1) \<Rightarrow> (Inl e, config1, w1)
           | (Inr _, w1) \<Rightarrow> (Inr (Bool True), config1, w1)))"

definition delete_and_return :: "config \<Rightarrow> string \<Rightarrow> string \<Rightarrow> result cio" where
  "delete_and_return config section option w =
     (case delete_option config section option False w of
        (Inl e, config1, w1) \<Rightarrow> (Inl e, config1, w1)
      | (Inr _, config1, w1) \<Rightarrow> (Inr (Bool False), config1, w1))"

text \<open>The branch of \<open>modify_option\<close> for the answer \<open>modify\<close>.\<close>

definition modify_branch ::
  "runtime \<Rightarrow> editors \<Rightarrow> config \<Rightarrow> string \<Rightarrow> string \<Rightarrow> (string \<times> string) list
     \<Rightarrow> limits \<Rightarrow> string \<Rightarrow> result cio" where
  "modify_branch rt ed config section option prompts limits current w =
     (case evaluate_value rt current w of
        (Inl e, w1) \<Rightarrow> (Inl e, config, w1)
      | (Inr evaluated_value, w1) \<Rightarrow>
          (case (value_kind evaluated_value, evaluated_value) of
             (Dictionary, Some (PDict d)) \<Rightarrow>
               (case modify_dictionary ed d w1 of
                  (Inl e, w2) \<Rightarrow> (Inl e, config, w2)
                | (Inr d1, w2) \<Rightarrow> store_and_write config section option (py_str (PDict d1)) w2)
           | (Tuple, Some (PTuple t)) \<Rightarrow>
               (case modify_tuple ed t w1 of
                  (Inl e, w2) \<Rightarrow> (Inl e, config, w2)
                | (Inr t1, w2) \<Rightarrow> store_and_write config section option (py_str (PTuple t1)) w2)
           | (TupleList, Some (PList l)) \<Rightarrow>
               (case modify_tuple_list ed (if l = [PTuple []] then [] else l) w1 of
                  (Inl e, w2) \<Rightarrow> (Inl e, config, w2)
                | (Inr tuple_list, w2) \<Rightarrow>
                    if tuple_list \<noteq> []
                    then store_and_write config section option (py_str (PList tuple_list)) w2
                    else delete_and_return config section option w2)
           | _ \<Rightarrow>
               (case modify_value rt (get_prompt prompts ''value'' ''value'') 0 current None limits w1 of
                  (Inl e, w2) \<Rightarrow> (Inl e, config, w2)
                | (Inr v, w2) \<Rightarrow> store_and_write config section option v w2)))"


section \<open>The diff reconciler: \<open>check_config_changes\<close>\<close>





record diff_state =
  default_config :: config
  user_config :: config
  section_index :: nat
  section_indices :: "nat list"
  answer :: string
  option_index :: nat
  option_indices :: "nat list"
  options :: "string list"





text \<open>
  One pass through the body of a \<open>while\<close> loop either goes on to the next test of the
  loop condition (\<open>Continue\<close>: the end of the body, or \<open>continue\<close>) or leaves the loop
  (\<open>Stop\<close>: \<open>break\<close>, \<open>return\<close>, or an exception).
\<close>

datatype 'a step = Continue diff_state world | Stop "exn + 'a" diff_state world











section \<open>The accelerators as the specification words them\<close>

text \<open>
  The accelerator of a word, given the accelerators already assigned in this call: the
  first of its characters, from the left, whose lower-case form is not among them.
\<close>

definition spec_accelerator :: "string \<Rightarrow> string \<Rightarrow> char option" where
  "spec_accelerator assigned word = find (\<lambda>c. char_lower c \<notin> set assigned) word"

fun spec_choose :: "string \<Rightarrow> string list \<Rightarrow> string option" where
  "spec_choose assigned [] = Some assigned"
| "spec_choose assigned (word # rest) =
     (case spec_accelerator assigned word of
        None \<Rightarrow> None
      | Some c \<Rightarrow> spec_choose (assigned @ [char_lower c]) rest)"

text \<open>A process with the given console input, no configuration file and an empty key store.\<close>

definition console :: "string list \<Rightarrow> world" where
  "console lines =
     \<lparr>stdin = lines, stdout = [], plain_file = None, gpg_file = None,
      gnupg_import_error = False, gpg_keys = [], backups = 0\<rparr>"

section \<open>A model of \<open>ast.literal_eval\<close> on the literals that \<open>str\<close> prints\<close>

text \<open>
  \<open>ast.literal_eval\<close> is a parameter of the codec. For the round trip it is modelled on
  a fragment of the literal syntax: strings in single or double quotes with the escapes
  that \<open>repr\<close> emits, tuples, lists and dictionaries, with spaces and tabs between the
  tokens. Where the model reads a text, Python reads the same value; a text outside the
  fragment is not read (\<open>None\<close>), whatever Python does with it.
\<close>

definition skip_blanks :: "string \<Rightarrow> string" where
  "skip_blanks s = dropWhile (\<lambda>c. c = CHR '' '' \<or> c = CHR 0x09) s"

definition hex_value :: "char \<Rightarrow> nat option" where
  "hex_value c =
     (if c \<in> set hex_chars then Some (length (takeWhile (\<lambda>d. d \<noteq> c) hex_chars))
      else if c \<in> set ''ABCDEF'' then Some (10 + length (takeWhile (\<lambda>d. d \<noteq> c) ''ABCDEF''))
      else None)"

definition cons_char :: "char \<Rightarrow> (string \<times> string) option \<Rightarrow> (string \<times> string) option" where
  "cons_char c r = (case r of None \<Rightarrow> None | Some (b, rest) \<Rightarrow> Some (c # b, rest))"

fun string_body :: "char \<Rightarrow> string \<Rightarrow> (string \<times> string) option" where
  "string_body quote [] = None"
| "string_body quote [c] = (if c = quote then Some ([], []) else None)"
| "string_body quote (c # e # cs) =
     (if c = quote then Some ([], e # cs)
      else if c = BS
      then (if e = BS \<or> e = SQ \<or> e = DQ then cons_char e (string_body quote cs)
            else if e = CHR ''t'' then cons_char (CHR 0x09) (string_body quote cs)
            else if e = CHR ''n'' then cons_char (CHR 0x0A) (string_body quote cs)
            else if e = CHR ''r'' then cons_char (CHR 0x0D) (string_body quote cs)
            else if e = CHR ''x''
            then (case cs of
                    h # l # cs1 \<Rightarrow>
                      (case (hex_value h, hex_value l) of
                         (Some a, Some b) \<Rightarrow> cons_char (char_of (16 * a + b)) (string_body quote cs1)
                       | _ \<Rightarrow> None)
                  | _ \<Rightarrow> None)
            else None)
      else if printable c then cons_char c (string_body quote (e # cs))
      else None)"

fun parse_expr :: "nat \<Rightarrow> string \<Rightarrow> (pyval \<times> string) option"
  and parse_elements :: "nat \<Rightarrow> char \<Rightarrow> string \<Rightarrow> (pyval list \<times> string) option"
  and parse_pairs :: "nat \<Rightarrow> string \<Rightarrow> ((pyval \<times> pyval) list \<times> string) option" where
  "parse_expr 0 s = None"
| "parse_expr (Suc n) s =
     (case skip_blanks s of
        [] \<Rightarrow> None
      | c # cs \<Rightarrow>
          if c = SQ \<or> c = DQ
          then (case string_body c cs of None \<Rightarrow> None | Some (b, r) \<Rightarrow> Some (PStr b, r))
          else if c = CHR ''(''
          then (case skip_blanks cs of
                  [] \<Rightarrow> None
                | d # ds \<Rightarrow>
                    if d = CHR '')'' then Some (PTuple [], ds)
                    else (case parse_expr n cs of
                            None \<Rightarrow> None
                          | Some (v, r) \<Rightarrow>
                              (case skip_blanks r of
                                 [] \<Rightarrow> None
                               | e # es \<Rightarrow>
                                   if e = CHR '')'' then Some (v, es)
                                   else if e = CHR '',''
                                   then (case parse_elements n (CHR '')'') es of
                                           None \<Rightarrow> None
                                         | Some (vs, r1) \<Rightarrow> Some (PTuple (v # vs), r1))
                                   else None)))
          else if c = CHR ''[''
          then (case parse_elements n (CHR '']'') cs of
                  None \<Rightarrow> None
                | Some (vs, r) \<Rightarrow> Some (PList vs, r))
          else if c = CHR ''{''
          then (case parse_pairs n cs of
                  None \<Rightarrow> None
                | Some (kvs, r) \<Rightarrow> Some (PDict kvs, r))
          else None)"
| "parse_elements 0 close s = None"
| "parse_elements (Suc n) close s =
     (case skip_blanks s of
        [] \<Rightarrow> None
      | c # cs \<Rightarrow>
          if c = close then Some ([], cs)
          else (case parse_expr n s of
                  None \<Rightarrow> None
                | Some (v, r) \<Rightarrow>
                    (case skip_blanks r of
                       [] \<Rightarrow> None
                     | e # es \<Rightarrow>
                         if e = close then Some ([v], es)
                         else if e = CHR '',''
                         then (case parse_elements n close es of
                                 None \<Rightarrow> None
                               | Some (vs, r1) \<Rightarrow> Some (v # vs, r1))
                         else None)))"
| "parse_pairs 0 s = None"
| "parse_pairs (Suc n) s =
     (case skip_blanks s of
        [] \<Rightarrow> None
      | c # cs \<Rightarrow>
          if c = CHR ''}'' then Some ([], cs)
          else (case parse_expr n s of
                  None \<Rightarrow> None
                | Some (k, r) \<Rightarrow>
                    (case skip_blanks r of
                       [] \<Rightarrow> None
                     | e # es \<Rightarrow>
                         if e = CHR '':''
                         then (case parse_expr n es of
                                 None \<Rightarrow> None
                               | Some (v, r1) \<Rightarrow>
                                   (case skip_blanks r1 of
                                      [] \<Rightarrow> None
                                    | f # fs \<Rightarrow>
                                        if f = CHR ''}'' then Some ([(k, v)], fs)
                                        else if f = CHR '',''
                                        then (case parse_pairs n fs of
                                                None \<Rightarrow> None
                                              | Some (kvs, r2) \<Rightarrow> Some ((k, v) # kvs, r2))
                                        else None))
                         else None)))"

text \<open>
  The syntax tree is the value with its dictionaries as the pairs were written;
  \<open>convert\<close> builds the dictionaries, as \<open>literal_eval\<close> does after parsing: the keys are
  converted, then the values, then the dictionary is filled in order, where a later pair
  replaces the value of an equal earlier key and a list or dictionary in a key is a
  \<open>TypeError\<close>.
\<close>

fun unhashable_type :: "pyval \<Rightarrow> string option" where
  "unhashable_type (PStr s) = None"
| "unhashable_type (PTuple xs) =
     (case List.find (\<lambda>r. r \<noteq> None) (map unhashable_type xs) of None \<Rightarrow> None | Some r \<Rightarrow> r)"
| "unhashable_type (PList xs) = Some ''list''"
| "unhashable_type (PDict kvs) = Some ''dict''"
| "unhashable_type (POther r) = None"

fun build_dict :: "(pyval \<times> pyval) list \<Rightarrow> (pyval \<times> pyval) list \<Rightarrow> exn + (pyval \<times> pyval) list" where
  "build_dict d [] = Inr d"
| "build_dict d (kv # kvs) =
     (case unhashable_type (fst kv) of
        Some t \<Rightarrow> Inl (TypeError (''unhashable type: '' @ [SQ] @ t @ [SQ]))
      | None \<Rightarrow> build_dict (AList.update (fst kv) (snd kv) d) kvs)"

fun convert :: "pyval \<Rightarrow> exn + pyval"
  and convert_list :: "pyval list \<Rightarrow> exn + pyval list"
  and convert_keys :: "(pyval \<times> pyval) list \<Rightarrow> exn + pyval list"
  and convert_values :: "(pyval \<times> pyval) list \<Rightarrow> exn + pyval list" where
  "convert (PStr s) = Inr (PStr s)"
| "convert (PTuple xs) = (case convert_list xs of Inl e \<Rightarrow> Inl e | Inr vs \<Rightarrow> Inr (PTuple vs))"
| "convert (PList xs) = (case convert_list xs of Inl e \<Rightarrow> Inl e | Inr vs \<Rightarrow> Inr (PList vs))"
| "convert (PDict kvs) =
     (case convert_keys kvs of
        Inl e \<Rightarrow> Inl e
      | Inr ks \<Rightarrow>
          (case convert_values kvs of
             Inl e \<Rightarrow> Inl e
           | Inr vs \<Rightarrow>
               (case build_dict [] (zip ks vs) of Inl e \<Rightarrow> Inl e | Inr d \<Rightarrow> Inr (PDict d))))"
| "convert (POther r) = Inr (POther r)"
| "convert_list [] = Inr []"
| "convert_list (x # xs) =
     (case convert x of
        Inl e \<Rightarrow> Inl e
      | Inr v \<Rightarrow> (case convert_list xs of Inl e \<Rightarrow> Inl e | Inr vs \<Rightarrow> Inr (v # vs)))"
| "convert_keys [] = Inr []"
| "convert_keys (kv # kvs) =
     (case convert (fst kv) of
        Inl e \<Rightarrow> Inl e
      | Inr k \<Rightarrow> (case convert_keys kvs of Inl e \<Rightarrow> Inl e | Inr ks \<Rightarrow> Inr (k # ks)))"
| "convert_values [] = Inr []"
| "convert_values (kv # kvs) =
     (case convert (snd kv) of
        Inl e \<Rightarrow> Inl e
      | Inr v \<Rightarrow> (case convert_values kvs of Inl e \<Rightarrow> Inl e | Inr vs \<Rightarrow> Inr (v # vs)))"

text \<open>
  The text is stripped of leading spaces and tabs, one expression is read, and only
  white space may follow it.
\<close>

definition literal_expr :: "string \<Rightarrow> pyval option" where
  "literal_expr s =
     (let t = skip_blanks s
      in case parse_expr (Suc (length t)) t of
           None \<Rightarrow> None
         | Some (v, r) \<Rightarrow> if skip_blanks r = [] then Some v else None)"



text \<open>A runtime agrees with the model when it evaluates as the model does what the model reads.\<close>

definition agrees :: "runtime \<Rightarrow> bool" where
  "agrees rt = (\<forall>s tree. literal_expr s = Some tree \<longrightarrow> literal_eval rt s = convert tree)"

text \<open>
  The codec: \<open>encode\<close> is \<open>str\<close>, as \<open>modify_option\<close> stores a value; \<open>decode\<close> is
  \<open>evaluate_value\<close> followed by the reading that \<open>modify_option\<close> makes of its result, a
  dictionary, a tuple, a list of tuples, or else the stored text itself as a scalar.
\<close>

definition encode :: "pyval \<Rightarrow> string" where
  "encode v = py_str v"

definition decode :: "runtime \<Rightarrow> string \<Rightarrow> pyval io" where
  "decode rt text w =
     (case evaluate_value rt text w of
        (Inl e, w1) \<Rightarrow> (Inl e, w1)
      | (Inr evaluated_value, w1) \<Rightarrow>
          (case (value_kind evaluated_value, evaluated_value) of
             (Dictionary, Some v) \<Rightarrow> (Inr v, w1)
           | (Tuple, Some v) \<Rightarrow> (Inr v, w1)
           | (TupleList, Some v) \<Rightarrow> (Inr v, w1)
           | _ \<Rightarrow> (Inr (PStr text), w1)))"

text \<open>
  The values of the specification: text, tuples, lists and dictionaries of such values,
  the keys of a dictionary distinct and hashable.
\<close>

fun representable :: "pyval \<Rightarrow> bool" where
  "representable (PStr s) = True"
| "representable (PTuple xs) = (\<forall>x\<in>set xs. representable x)"
| "representable (PList xs) = (\<forall>x\<in>set xs. representable x)"
| "representable (PDict kvs) =
     (distinct (map fst kvs) \<and>
      (\<forall>kv\<in>set kvs. representable (fst kv) \<and> unhashable_type (fst kv) = None
                     \<and> representable (snd kv)))"
| "representable (POther r) = False"

text \<open>The depth of recursion that reading the text of a value takes.\<close>

function (sequential) fuel :: "pyval \<Rightarrow> nat"
  and fuel_items :: "pyval list \<Rightarrow> nat"
  and fuel_pairs :: "(pyval \<times> pyval) list \<Rightarrow> nat" where
  "fuel (PStr s) = 1"
| "fuel (PTuple xs) = fuel_items xs"
| "fuel (PList xs) = Suc (fuel_items xs)"
| "fuel (PDict kvs) = Suc (fuel_pairs kvs)"
| "fuel (POther r) = 1"
| "fuel_items [] = 1"
| "fuel_items (x # xs) = Suc (max (fuel x) (fuel_items xs))"
| "fuel_pairs [] = 1"
| "fuel_pairs ((k, v) # kvs) = Suc (max (fuel k) (max (fuel v) (fuel_pairs kvs)))"
  by pat_completeness auto
termination
  by (relation "measure (case_sum size
         (case_sum (size_list size) (size_list (size_prod size size))))") auto


section \<open>Auxiliary definitions for the statements\<close>






section \<open>Properties of the mnemonic prompt\<close>

lemma upper_lower_disjoint: "set upper_chars \<inter> set lower_chars = {}"
  by code_simp

lemma char_lower_cases:
  "char_lower c = c \<or> (c \<in> set upper_chars \<and> char_lower c \<in> set lower_chars)"
proof (cases "map_of (zip upper_chars lower_chars) c")
  case None
  then show ?thesis by (simp add: char_lower_def)
next
  case (Some l)
  then have "(c, l) \<in> set (zip upper_chars lower_chars)" by (rule map_of_SomeD)
  then have "c \<in> set upper_chars" "l \<in> set lower_chars"
    by (auto dest: set_zip_leftD set_zip_rightD)
  with Some show ?thesis by (simp add: char_lower_def)
qed

lemma char_lower_fixed: "c \<notin> set upper_chars \<Longrightarrow> char_lower c = c"
  using char_lower_cases [of c] by auto

lemma char_lower_idem: "char_lower (char_lower c) = char_lower c"
  using char_lower_cases [of c] upper_lower_disjoint
  by (auto intro: char_lower_fixed)

lemma scan_word_find:
  "scan_word word s =
     (case spec_accelerator (initialism s) word of
        None \<Rightarrow> s
      | Some c \<Rightarrow> s\<lparr>mnemonics := Some c, initialism := initialism s @ [char_lower c]\<rparr>)"
  by (induction word) (simp_all add: spec_accelerator_def)

lemma mnemonic_loop_refines:
  "previous_initialism s = initialism s \<Longrightarrow> k = 0 \<or> prompt s \<noteq> None \<Longrightarrow>
   (case spec_choose (initialism s) ws of
      None \<Rightarrow> mnemonic_loop k ws s w = (Inl (SystemExit 1), print ''Undetermined mnemonics.'' w)
    | Some acc \<Rightarrow> (\<exists>s'. mnemonic_loop k ws s w = (Inr s', w) \<and> initialism s' = acc
                        \<and> (ws \<noteq> [] \<longrightarrow> prompt s' \<noteq> None)))"
proof (induction ws arbitrary: k s)
  case Nil
  then show ?case by simp
next
  case (Cons word rest)
  show ?case
  proof (cases "spec_accelerator (initialism s) word")
    case None
    with Cons.prems show ?thesis by (simp add: scan_word_find)
  next
    case (Some c)
    let ?hw = "replace_first c (ANSI_UNDERLINE @ [c] @ ANSI_RESET) word"
    let ?p = "if k = 0 then ?hw else the (prompt s) @ ''/'' @ ?hw"
    let ?s3 = "s\<lparr>mnemonics := Some c, initialism := initialism s @ [char_lower c],
                  previous_initialism := initialism s @ [char_lower c], prompt := Some ?p\<rparr>"
    have step: "mnemonic_loop k (word # rest) s w = mnemonic_loop (Suc k) rest ?s3 w"
      using Some Cons.prems by (auto simp: scan_word_find Let_def)
    have "case spec_choose (initialism ?s3) rest of
            None \<Rightarrow> mnemonic_loop (Suc k) rest ?s3 w = (Inl (SystemExit 1), print ''Undetermined mnemonics.'' w)
          | Some acc \<Rightarrow> (\<exists>s'. mnemonic_loop (Suc k) rest ?s3 w = (Inr s', w) \<and> initialism s' = acc
                        \<and> (rest \<noteq> [] \<longrightarrow> prompt s' \<noteq> None))"
      by (rule Cons.IH) simp_all
    then show ?thesis
      using Some step by (cases rest) (auto split: option.splits)
  qed
qed

lemma spec_choose_Some:
  "spec_choose acc0 ws = Some acc \<Longrightarrow> distinct acc0 \<Longrightarrow>
   (\<exists>new. acc = acc0 @ new \<and> length new = length ws \<and> distinct acc \<and>
      (\<forall>i<length ws. map_option char_lower (spec_accelerator (take (length acc0 + i) acc) (ws ! i))
                        = Some (acc ! (length acc0 + i))))"
proof (induction ws arbitrary: acc0)
  case Nil
  then show ?case by simp
next
  case (Cons word rest)
  from Cons.prems(1) obtain c where c: "spec_accelerator acc0 word = Some c"
    and rest: "spec_choose (acc0 @ [char_lower c]) rest = Some acc"
    by (auto split: option.splits)
  from c have "char_lower c \<notin> set acc0"
    by (auto simp: spec_accelerator_def find_Some_iff)
  with Cons.prems(2) have d: "distinct (acc0 @ [char_lower c])" by simp
  from Cons.IH [OF rest d] obtain new where new: "acc = (acc0 @ [char_lower c]) @ new"
    "length new = length rest" "distinct acc"
    "\<forall>i<length rest. map_option char_lower
        (spec_accelerator (take (length (acc0 @ [char_lower c]) + i) acc) (rest ! i))
        = Some (acc ! (length (acc0 @ [char_lower c]) + i))"
    by blast
  have "\<forall>i<length (word # rest). map_option char_lower
          (spec_accelerator (take (length acc0 + i) acc) ((word # rest) ! i))
          = Some (acc ! (length acc0 + i))"
  proof (intro allI impI)
    fix i assume i: "i < length (word # rest)"
    show "map_option char_lower (spec_accelerator (take (length acc0 + i) acc) ((word # rest) ! i))
          = Some (acc ! (length acc0 + i))"
    proof (cases i)
      case 0
      then show ?thesis using c new(1) by (simp add: nth_append)
    next
      case (Suc j)
      with i have "j < length rest" by simp
      with new(4) have "map_option char_lower
        (spec_accelerator (take (length (acc0 @ [char_lower c]) + j) acc) (rest ! j))
        = Some (acc ! (length (acc0 @ [char_lower c]) + j))" by blast
      then show ?thesis using Suc by simp
    qed
  qed
  with new(1,2,3) show ?case
    by (intro exI [of _ "char_lower c # new"]) simp
qed

lemma spec_choose_None:
  "spec_choose acc0 ws = None \<Longrightarrow>
   (\<exists>i<length ws. \<exists>new. length new = i \<and>
      (\<forall>j<i. map_option char_lower (spec_accelerator (take (length acc0 + j) (acc0 @ new)) (ws ! j))
                 = Some ((acc0 @ new) ! (length acc0 + j))) \<and>
      spec_accelerator (acc0 @ new) (ws ! i) = None)"
proof (induction ws arbitrary: acc0)
  case Nil
  then show ?case by simp
next
  case (Cons word rest)
  show ?case
  proof (cases "spec_accelerator acc0 word")
    case None
    then show ?thesis by (intro exI [of _ 0]) simp
  next
    case (Some c)
    with Cons.prems have "spec_choose (acc0 @ [char_lower c]) rest = None" by simp
    from Cons.IH [OF this] obtain i new where i: "i < length rest" "length new = i"
      "\<forall>j<i. map_option char_lower
          (spec_accelerator (take (length (acc0 @ [char_lower c]) + j) ((acc0 @ [char_lower c]) @ new)) (rest ! j))
          = Some (((acc0 @ [char_lower c]) @ new) ! (length (acc0 @ [char_lower c]) + j))"
      "spec_accelerator ((acc0 @ [char_lower c]) @ new) (rest ! i) = None"
      by blast
    have "\<forall>j<Suc i. map_option char_lower
            (spec_accelerator (take (length acc0 + j) (acc0 @ char_lower c # new)) ((word # rest) ! j))
            = Some ((acc0 @ char_lower c # new) ! (length acc0 + j))"
    proof (intro allI impI)
      fix j assume j: "j < Suc i"
      show "map_option char_lower
            (spec_accelerator (take (length acc0 + j) (acc0 @ char_lower c # new)) ((word # rest) ! j))
            = Some ((acc0 @ char_lower c # new) ! (length acc0 + j))"
      proof (cases j)
        case 0
        then show ?thesis using Some by simp
      next
        case (Suc k)
        with j have "k < i" by simp
        with i(3) have "map_option char_lower
          (spec_accelerator (take (length (acc0 @ [char_lower c]) + k) ((acc0 @ [char_lower c]) @ new)) (rest ! k))
          = Some (((acc0 @ [char_lower c]) @ new) ! (length (acc0 @ [char_lower c]) + k))" by blast
        then show ?thesis using Suc by simp
      qed
    qed
    with i(1,2,4) show ?thesis
      by (intro exI [of _ "Suc i"] conjI exI [of _ "char_lower c # new"]) simp_all
  qed
qed

lemma accelerators_spec:
  assumes "mnemonic_loop 0 answers initial_mnemonic_state w = (r, w')"
  shows "case r of
      Inr s \<Rightarrow> w' = w \<and> length (initialism s) = length answers \<and> distinct (initialism s) \<and>
        (answers \<noteq> [] \<longrightarrow> prompt s \<noteq> None) \<and>
        (\<forall>i<length answers.
           map_option char_lower (spec_accelerator (take i (initialism s)) (answers ! i))
             = Some (initialism s ! i))
    | Inl e \<Rightarrow> e = SystemExit 1 \<and> w' = print ''Undetermined mnemonics.'' w \<and>
        (\<exists>i<length answers. \<exists>acc. length acc = i \<and>
           (\<forall>j<i. map_option char_lower (spec_accelerator (take j acc) (answers ! j))
                     = Some (acc ! j)) \<and>
           spec_accelerator acc (answers ! i) = None)"
proof -
  have init: "previous_initialism initial_mnemonic_state = initialism initial_mnemonic_state"
    "initialism initial_mnemonic_state = []"
    by (simp_all add: initial_mnemonic_state_def)
  note ref = mnemonic_loop_refines [of initial_mnemonic_state 0 answers w, OF init(1)]
  show ?thesis
  proof (cases "spec_choose [] answers")
    case None
    with ref init(2) assms have r: "r = Inl (SystemExit 1)" "w' = print ''Undetermined mnemonics.'' w"
      by auto
    from spec_choose_None [OF None] r show ?thesis by simp
  next
    case (Some acc)
    with ref init(2) assms obtain s where s: "r = Inr s" "w' = w" "initialism s = acc"
      "answers \<noteq> [] \<longrightarrow> prompt s \<noteq> None"
      by auto
    from spec_choose_Some [OF Some] s show ?thesis by auto
  qed
qed

lemma pick_answer_settled:
  assumes "distinct ini" "length ini = length answers" "\<forall>c\<in>set ini. char_lower c = c"
    "\<forall>i<length answers. answers ! i \<noteq> [] \<and> char_lower (hd (answers ! i)) \<in> set (take (Suc i) ini)"
  shows "index + n = length ini \<Longrightarrow> i < index \<Longrightarrow>
         pick_answer ini answers index n (answers ! i) = Inr (answers ! i)"
proof (induction n arbitrary: index)
  case 0
  then show ?case by simp
next
  case (Suc n)
  from Suc.prems assms(2) have i: "i < length answers" "index < length ini" by simp_all
  with assms(4) obtain a as where a: "answers ! i = a # as"
    and ain: "char_lower a \<in> set (take (Suc i) ini)"
    by (cases "answers ! i") auto
  have "ini ! index \<noteq> a"
  proof
    assume eq: "ini ! index = a"
    with i(2) assms(3) have "char_lower a = a" by (metis nth_mem)
    with ain obtain m where m: "m < Suc i" "m < length ini" "ini ! m = a"
      by (auto simp: in_set_conv_nth)
    with eq assms(1) i(2) have "m = index" by (metis nth_eq_iff_index_eq)
    with m(1) Suc.prems(2) show False by simp
  qed
  moreover have "pick_answer ini answers (Suc index) n (answers ! i) = Inr (answers ! i)"
    using Suc.prems by (intro Suc.IH) simp_all
  ultimately show ?case using a by simp
qed

lemma pick_answer_match:
  assumes "distinct ini" "length ini = length answers" "\<forall>c\<in>set ini. char_lower c = c"
    "\<forall>i<length answers. answers ! i \<noteq> [] \<and> char_lower (hd (answers ! i)) \<in> set (take (Suc i) ini)"
  shows "index + n = length ini \<Longrightarrow> index \<le> i \<Longrightarrow> i < length ini \<Longrightarrow>
         pick_answer ini answers index n (ini ! i # tl_answer) = Inr (answers ! i)"
proof (induction n arbitrary: index)
  case 0
  then show ?case by simp
next
  case (Suc n)
  show ?case
  proof (cases "index = i")
    case True
    have "pick_answer ini answers (Suc i) n (answers ! i) = Inr (answers ! i)"
      using Suc.prems True by (intro pick_answer_settled [OF assms]) simp_all
    with True Suc.prems assms(2) show ?thesis by simp
  next
    case False
    with Suc.prems assms(1) have "ini ! index \<noteq> ini ! i"
      by (simp add: nth_eq_iff_index_eq)
    moreover have "pick_answer ini answers (Suc index) n (ini ! i # tl_answer) = Inr (answers ! i)"
      using Suc.prems False by (intro Suc.IH) simp_all
    ultimately show ?thesis by simp
  qed
qed

lemma accelerators_first_chars:
  assumes "\<forall>i<length answers.
           map_option char_lower (spec_accelerator (take i ini) (answers ! i)) = Some (ini ! i)"
    and "length ini = length answers"
  shows "(\<forall>c\<in>set ini. char_lower c = c) \<and>
    (\<forall>i<length answers. answers ! i \<noteq> [] \<and> char_lower (hd (answers ! i)) \<in> set (take (Suc i) ini))"
proof (intro conjI ballI allI impI)
  fix c assume "c \<in> set ini"
  then obtain i where i: "i < length ini" "ini ! i = c" by (auto simp: in_set_conv_nth)
  with assms obtain d where "char_lower d = c" by (metis map_option_eq_Some)
  then show "char_lower c = c" using char_lower_idem by blast
next
  fix i assume i: "i < length answers"
  with assms(1) obtain d where d: "spec_accelerator (take i ini) (answers ! i) = Some d"
    "char_lower d = ini ! i" by (metis map_option_eq_Some)
  then show "answers ! i \<noteq> []" by (auto simp: spec_accelerator_def)
  have last: "ini ! i \<in> set (take (Suc i) ini)"
    using i assms(2) by (simp add: take_Suc_conv_app_nth)
  have sub: "set (take i ini) \<subseteq> set (take (Suc i) ini)"
    by (simp add: set_take_subset_set_take)
  from d obtain a as where a: "answers ! i = a # as" by (cases "answers ! i") (auto simp: spec_accelerator_def)
  show "char_lower (hd (answers ! i)) \<in> set (take (Suc i) ini)"
  proof (cases "char_lower a \<in> set (take i ini)")
    case True
    with sub a show ?thesis by auto
  next
    case False
    with d a have "d = a" by (simp add: spec_accelerator_def)
    with d(2) a last show ?thesis by simp
  qed
qed

lemma hd_lower: "s \<noteq> [] \<Longrightarrow> hd (lower s) = char_lower (hd s)"
  by (cases s) (simp_all add: lower_def)

lemma lower_Nil_iff: "lower s = [] \<longleftrightarrow> s = []"
  by (simp add: lower_def)

lemma tidy_answer_resolves:
  assumes loop: "mnemonic_loop 0 answers initial_mnemonic_state w = (Inr s, w1)"
    and ne: "answers \<noteq> []" and line: "stdin w = line # rest"
  shows "(\<exists>w'. tidy_answer answers level w =
            (Inr (if strip line = [] then []
                  else case find (\<lambda>i. initialism s ! i = char_lower (hd (strip line))) [0..<length answers] of
                         None \<Rightarrow> [] | Some i \<Rightarrow> answers ! i), w') \<and> stdin w' = rest)
         \<and> length (initialism s) = length answers \<and> distinct (initialism s)"
proof -
  from accelerators_spec [OF loop] ne obtain p where
    s: "w1 = w" "length (initialism s) = length answers" "distinct (initialism s)"
       "prompt s = Some p"
       "\<forall>i<length answers.
           map_option char_lower (spec_accelerator (take i (initialism s)) (answers ! i))
             = Some (initialism s ! i)"
    by auto
  note fc = accelerators_first_chars [OF s(5) s(2)]
  let ?key = "lower (strip line)"
  let ?w2 = "w\<lparr>stdout := stdout w @ [Prompt (indent level @ p @ '': '')], stdin := rest\<rparr>"
  have inp: "input (indent level @ p @ '': '') w = (Inr line, ?w2)"
    using line by (simp add: input_def)
  show ?thesis
  proof (cases "strip line = []")
    case True
    then show ?thesis using loop s inp by (simp add: tidy_answer_def lower_Nil_iff)
  next
    case False
    then have key: "?key \<noteq> []" "hd ?key = char_lower (hd (strip line))"
      by (simp_all add: lower_Nil_iff hd_lower)
    then obtain tl_answer where ka: "?key = char_lower (hd (strip line)) # tl_answer"
      by (cases ?key) auto
    show ?thesis
    proof (cases "find (\<lambda>i. initialism s ! i = char_lower (hd (strip line))) [0..<length answers]")
      case None
      then have "char_lower (hd (strip line)) \<notin> set (initialism s)"
        using s(2) by (auto simp: find_None_iff in_set_conv_nth)
      then show ?thesis using loop s inp key False None
        by (simp add: tidy_answer_def)
    next
      case (Some i)
      then have i: "i < length answers" "initialism s ! i = char_lower (hd (strip line))"
        by (auto simp: find_Some_iff)
      then have mem: "char_lower (hd (strip line)) \<in> set (initialism s)"
        using s(2) by (metis nth_mem)
      have "pick_answer (initialism s) answers 0 (length (initialism s)) (initialism s ! i # tl_answer)
              = Inr (answers ! i)"
        using i(1) s(2) fc
        by (intro pick_answer_match [OF s(3) s(2)]) simp_all
      then show ?thesis using loop s inp key False Some mem i(2) ka
        by (simp add: tidy_answer_def)
    qed
  qed
qed

lemma default_quit_mnemonics: "mnemonic_loop 0 [''default'', ''quit''] initial_mnemonic_state (console []) =
     (Inr \<lparr>initialism = ''dq'', previous_initialism = ''dq'', mnemonics = Some CHR ''q'',
           prompt = Some (ANSI_UNDERLINE @ ''d'' @ ANSI_RESET @ ''efault/'' @
                          ANSI_UNDERLINE @ ''q'' @ ANSI_RESET @ ''uit'')\<rparr>, console [])"
  by code_simp

lemma colliding_mnemonics: "mnemonic_loop 0 [''a'', ''A''] initial_mnemonic_state (console []) =
     (Inl (SystemExit 1), print ''Undetermined mnemonics.'' (console []))"
  by code_simp


lemma default_quit_mnemonics_upper: "mnemonic_loop 0 [''default'', ''quit''] initial_mnemonic_state (console [''  Q '']) =
     (Inr \<lparr>initialism = ''dq'', previous_initialism = ''dq'', mnemonics = Some CHR ''q'',
           prompt = Some (ANSI_UNDERLINE @ ''d'' @ ANSI_RESET @ ''efault/'' @
                          ANSI_UNDERLINE @ ''q'' @ ANSI_RESET @ ''uit'')\<rparr>, console [''  Q ''])"
  by code_simp


text \<open>
  Claim C2. For every list of action words given to the menu prompt, the accelerator of
  each word is the lower-case form of the first of its characters, from the left, whose
  lower-case form is not the accelerator of an earlier word; then every word has one
  accelerator and the accelerators are distinct, and nothing is printed. If some word has
  no such character, the prompt prints \<open>Undetermined mnemonics.\<close> and the process exits
  with status 1.
\<close>

theorem C2_accelerators:
  assumes "mnemonic_loop 0 answers initial_mnemonic_state w = (r, w')"
  shows "case r of
      Inr s \<Rightarrow> w' = w \<and> length (initialism s) = length answers \<and> distinct (initialism s) \<and>
        (\<forall>i<length answers.
           map_option char_lower (spec_accelerator (take i (initialism s)) (answers ! i))
             = Some (initialism s ! i))
    | Inl e \<Rightarrow> e = SystemExit 1 \<and> w' = print ''Undetermined mnemonics.'' w \<and>
        tidy_answer answers level w = (Inl (SystemExit 1), print ''Undetermined mnemonics.'' w) \<and>
        (\<exists>i<length answers. \<exists>acc. length acc = i \<and>
           (\<forall>j<i. map_option char_lower (spec_accelerator (take j acc) (answers ! j))
                     = Some (acc ! j)) \<and>
           spec_accelerator acc (answers ! i) = None)"
proof (cases r)
  case (Inl e)
  with accelerators_spec [OF assms] have "e = SystemExit 1" "w' = print ''Undetermined mnemonics.'' w"
    by simp_all
  with assms Inl have "tidy_answer answers level w = (Inl (SystemExit 1), print ''Undetermined mnemonics.'' w)"
    by (simp add: tidy_answer_def)
  with accelerators_spec [OF assms] Inl show ?thesis by simp
next
  case (Inr s)
  with accelerators_spec [OF assms] show ?thesis by simp
qed


theorem C2_accelerators_witness:
  "spec_accelerator [] ''default'' = Some CHR ''d'' \<and>
   spec_accelerator ''d'' ''quit'' = Some CHR ''q'' \<and>
   tidy_answer [''a'', ''A''] 0 (console []) =
     (Inl (SystemExit 1), print ''Undetermined mnemonics.'' (console []))"
  using C2_accelerators [OF default_quit_mnemonics] C2_accelerators [OF colliding_mnemonics, of 0]
  by (simp add: spec_accelerator_def char_lower_def upper_chars_def lower_chars_def)

text \<open>
  Claim C7, as amended. The input line is stripped of surrounding white space first. A
  line that is empty after stripping resolves to the empty string; otherwise the line
  resolves to the one action word whose accelerator is the lower-case form of the first
  character of the stripped line, and to the empty string when there is none.
\<close>

theorem C7_resolution:
  assumes "mnemonic_loop 0 answers initial_mnemonic_state w = (Inr s, w1)"
    and "answers \<noteq> []" and "stdin w = line # rest"
  shows "(\<exists>w'. tidy_answer answers level w =
            (Inr (if strip line = [] then []
                  else case find (\<lambda>i. initialism s ! i = char_lower (hd (strip line)))
                              [0..<length answers] of
                         None \<Rightarrow> [] | Some i \<Rightarrow> answers ! i), w') \<and> stdin w' = rest)
         \<and> length (initialism s) = length answers \<and> distinct (initialism s)"
  using assms by (rule tidy_answer_resolves)


theorem C7_resolution_witness:
  "fst (tidy_answer [''default'', ''quit''] 0 (console [''  Q ''])) = Inr ''quit''"
proof -
  have "stdin (console [''  Q '']) = ''  Q '' # []" by (simp add: console_def)
  from C7_resolution [OF default_quit_mnemonics_upper _ this, of 0] show ?thesis
    by (auto simp: strip_def isspace_def char_lower_def upper_chars_def lower_chars_def)
qed


text \<open>
  The claim as stated compares the first character of the input line itself. The line
  \<open>'' m''\<close> is not empty and its first character, a space, is no accelerator of
  \<open>modify/quit\<close>, yet the prompt resolves it to \<open>modify\<close>.
\<close>

theorem C7_first_character_counterexample:
  "fst (tidy_answer [''modify'', ''quit''] 0 (console ['' m''])) = Inr ''modify''
   \<and> map_sum id initialism
        (fst (mnemonic_loop 0 [''modify'', ''quit''] initial_mnemonic_state (console ['' m''])))
       = Inr ''mq''
   \<and> '' m'' \<noteq> [] \<and> char_lower (hd '' m'') \<notin> set ''mq''"
  by code_simp

section \<open>Properties of the value prompt\<close>

lemma strip_Nil_iff: "strip line = [] \<longleftrightarrow> (\<forall>c\<in>set line. isspace c)"
proof
  assume "strip line = []"
  then have "dropWhile isspace (rev (dropWhile isspace line)) = []"
    by (simp add: strip_def)
  then have "\<forall>c\<in>set (dropWhile isspace line). isspace c"
    by (simp add: dropWhile_eq_Nil_conv)
  moreover have "set line = set (takeWhile isspace line) \<union> set (dropWhile isspace line)"
    by (metis set_append takeWhile_dropWhile_id)
  ultimately show "\<forall>c\<in>set line. isspace c"
    by (auto dest: set_takeWhileD)
next
  assume "\<forall>c\<in>set line. isspace c"
  then show "strip line = []"
    by (auto simp: strip_def dropWhile_eq_Nil_conv dest: set_dropWhileD)
qed

lemma prompt_for_input_reads:
  assumes "stdin w = line # rest"
  shows "prompt_for_input label level val all_values w =
           (Inr (if strip line \<noteq> [] then strip line
                 else if truthy all_values \<or> val \<noteq> [] then val else []),
            w\<lparr>stdout := stdout w @
                  [Prompt (if val \<noteq> []
                           then indent level @ label @ '' '' @ ANSI_CURRENT @ val @ ANSI_RESET @ '': ''
                           else indent level @ label @ '': '')],
               stdin := rest\<rparr>)"
  using assms
  by (simp add: prompt_for_input_def pt_prompt_def input_def Let_def)

text \<open>
  Claim C10. When the value prompt shows a current value (the value is not empty), an
  input line that is empty or consists of white space only returns the current value
  unchanged; the empty string is returned only when no current value was shown, and then
  such a line returns it.
\<close>

theorem C10_current_value_kept:
  assumes "stdin w = line # rest"
  shows "(val \<noteq> [] \<and> (\<forall>c\<in>set line. isspace c) \<longrightarrow>
            fst (prompt_for_input label level val all_values w) = Inr val)
         \<and> (fst (prompt_for_input label level val all_values w) = Inr [] \<longrightarrow> val = [])
         \<and> (val = [] \<and> (\<forall>c\<in>set line. isspace c) \<longrightarrow>
            fst (prompt_for_input label level val all_values w) = Inr [])"
  using prompt_for_input_reads [OF assms, of label level val all_values]
  by (auto simp: strip_Nil_iff [symmetric])

theorem C10_current_value_kept_witness:
  "fst (prompt_for_input ''value'' 0 ''4'' None (console [''  ''])) = Inr ''4''"
proof -
  have "stdin (console [''  '']) = ''  '' # []" by (simp add: console_def)
  from C10_current_value_kept [OF this, of "''4''" "''value''" 0 None] show ?thesis
    by (simp add: isspace_def)
qed

lemma py_max_int: "py_max (PyInt lo) (PyInt i) = PyInt (max lo i)"
  by (simp add: py_max_def max_def)

lemma py_min_int: "py_min (PyInt hi) (PyInt i) = PyInt (min hi i)"
  by (auto simp: py_min_def min_def)

lemma clamp_int:
  "clamp (Some (PyInt lo)) (Some (PyInt hi)) (PyInt i) = PyInt (min hi (max lo i))"
  by (simp add: clamp_def py_max_int py_min_int)

lemma coerce_int:
  "coerce rt (Some (PyInt lo)) (Some (PyInt hi)) entered w1 =
     (case py_float rt entered of
        Inl (ValueError e) \<Rightarrow> (Inl (SystemExit 2), print e w1)
      | Inl e \<Rightarrow> (Inl e, w1)
      | Inr x \<Rightarrow>
          (case py_int x of
             Inl (ValueError e) \<Rightarrow> (Inl (SystemExit 2), print e w1)
           | Inl e \<Rightarrow> (Inl e, w1)
           | Inr i \<Rightarrow> (Inr (Some (PyInt i)), w1)))"
  by (simp add: coerce_def is_int_def)

lemma modify_value_int_limits:
  assumes "stdin w = line # rest"
  shows "modify_value rt label level val None (Some (Some (PyInt lo), Some (PyInt hi))) w =
     (let entered = (if strip line \<noteq> [] then strip line else val);
          w1 = w\<lparr>stdout := stdout w @
                  [Prompt (if val \<noteq> []
                           then indent level @ label @ '' '' @ ANSI_CURRENT @ val @ ANSI_RESET @ '': ''
                           else indent level @ label @ '': '')],
               stdin := rest\<rparr>
      in case py_float rt entered of
           Inl (ValueError e) \<Rightarrow> (Inl (SystemExit 2), print e w1)
         | Inl e \<Rightarrow> (Inl e, w1)
         | Inr x \<Rightarrow>
             (case py_int x of
                Inl (ValueError e) \<Rightarrow> (Inl (SystemExit 2), print e w1)
              | Inl e \<Rightarrow> (Inl e, w1)
              | Inr i \<Rightarrow> (Inr (str_int (min hi (max lo i))), w1)))"
proof -
  define entered where "entered = (if strip line \<noteq> [] then strip line else val)"
  define w1 where "w1 = w\<lparr>stdout := stdout w @
                  [Prompt (if val \<noteq> []
                           then indent level @ label @ '' '' @ ANSI_CURRENT @ val @ ANSI_RESET @ '': ''
                           else indent level @ label @ '': '')],
               stdin := rest\<rparr>"
  have p: "prompt_for_input label level val None w = (Inr entered, w1)"
    using prompt_for_input_reads [OF assms, of label level val None]
    by (simp add: entered_def w1_def truthy_def)
  have "modify_value rt label level val None (Some (Some (PyInt lo), Some (PyInt hi))) w =
     (case py_float rt entered of
           Inl (ValueError e) \<Rightarrow> (Inl (SystemExit 2), print e w1)
         | Inl e \<Rightarrow> (Inl e, w1)
         | Inr x \<Rightarrow>
             (case py_int x of
                Inl (ValueError e) \<Rightarrow> (Inl (SystemExit 2), print e w1)
              | Inl e \<Rightarrow> (Inl e, w1)
              | Inr i \<Rightarrow> (Inr (str_int (min hi (max lo i))), w1)))"
  proof (cases "py_float rt entered")
    case (Inl e)
    then show ?thesis
      by (subst modify_value.simps) (cases e; simp add: p coerce_int)
  next
    case (Inr x)
    show ?thesis
    proof (cases "py_int x")
      case (Inl e)
      with Inr show ?thesis
        by (subst modify_value.simps) (cases e; simp add: p coerce_int)
    next
      case (Inr i)
      with \<open>py_float rt entered = Inr x\<close> show ?thesis
        by (subst modify_value.simps)
           (simp add: p coerce_int truthy_def clamp_int str_number_def)
    qed
  qed
  then show ?thesis unfolding entered_def w1_def Let_def .
qed

lemma clamped_in_range: "lo \<le> hi \<Longrightarrow> lo \<le> min hi (max lo i) \<and> min hi (max lo (i::int)) \<le> hi"
  by auto

lemma py_float_50: "py_float rt ''50'' = Inr (Finite 50)"
  by (simp add: py_float_def strip_def isspace_def lower_def char_lower_def upper_chars_def
        lower_chars_def digit_chars_def nat_of_digits_def)

lemma py_float_minus_5: "py_float rt ''-5'' = Inr (Finite (- 5))"
  by (simp add: py_float_def strip_def isspace_def lower_def char_lower_def upper_chars_def
        lower_chars_def digit_chars_def nat_of_digits_def)

lemma py_float_inf: "py_float rt ''inf'' = Inr Infinity"
  by (simp add: py_float_def strip_def isspace_def lower_def char_lower_def upper_chars_def
        lower_chars_def)

lemma clamp_examples:
  "fst (modify_value rt ''x'' 0 [] None (Some (Some (PyInt 0), Some (PyInt 10))) (console [''50'']))
     = Inr ''10''"
  "fst (modify_value rt ''x'' 0 [] None (Some (Some (PyInt 0), Some (PyInt 10))) (console [''-5'']))
     = Inr ''0''"
  "fst (modify_value rt ''x'' 0 ''50'' None (Some (Some (PyInt 0), Some (PyInt 10))) (console [[]]))
     = Inr ''10''"
  using modify_value_int_limits [of "console [''50'']" "''50''" "[]" rt "''x''" 0 "[]" 0 10]
        modify_value_int_limits [of "console [''-5'']" "''-5''" "[]" rt "''x''" 0 "[]" 0 10]
        modify_value_int_limits [of "console [[]]" "[]" "[]" rt "''x''" 0 "''50''" 0 10]
  by (simp_all add: console_def strip_def isspace_def
        py_float_50 py_float_minus_5 py_int_def str_int_def digit_chars_def)

text \<open>
  Claim C4. With integer limits the entry is read by \<open>int(float(value))\<close> and only
  \<open>ValueError\<close> is caught. The lemmas above give what the claim says for the entries that
  \<open>float\<close> maps to a finite number (the clamped integer, ''10'' for ''50'' and ''0'' for ''-5''
  with the limits 0 and 10) and for those it rejects (exit status 2). The entry \<open>inf\<close> is
  neither clamped to the upper limit nor answered with exit status 2: \<open>int\<close> raises
  \<open>OverflowError\<close>, which \<open>modify_value\<close> does not catch.
\<close>

theorem C4_infinity_is_not_clamped:
  "modify_value rt ''x'' 0 [] None (Some (Some (PyInt 0), Some (PyInt 10))) (console [''inf''])
     = (Inl (OverflowError ''cannot convert float infinity to integer''),
        (console [])\<lparr>stdout := [Prompt ''x: '']\<rparr>)"
  using modify_value_int_limits [of "console [''inf'']" "''inf''" "[]" rt "''x''" 0 "[]" 0 10]
  by (simp add: console_def strip_def isspace_def py_float_inf py_int_def indent_def)

section \<open>Properties of the document store\<close>










lemma write_config_plain:
  "gpg_file w = None \<Longrightarrow> write_config config w = (Inr (), w\<lparr>plain_file := Some config\<rparr>)"
  by (simp add: write_config_def)





section \<open>Properties of the option editor\<close>













section \<open>Properties of the value codec and the diff reconciler\<close>

lemma modify_branch_scalar:
  assumes "evaluate_value rt text w = (Inr None, w)"
  shows "modify_branch rt ed config section option prompts limits text w =
          (case modify_value rt (get_prompt prompts ''value'' ''value'') 0 text None limits w of
             (Inl e, w2) \<Rightarrow> (Inl e, config, w2)
           | (Inr v, w2) \<Rightarrow> store_and_write config section option v w2)"
  using assms by (simp add: modify_branch_def value_kind_def)

text \<open>
  Claim C3. \<open>ast.literal_eval\<close> returns a value or raises \<open>SyntaxError\<close>, \<open>ValueError\<close>,
  \<open>TypeError\<close>, \<open>MemoryError\<close> or \<open>RecursionError\<close>. In each case \<open>evaluate_value\<close> raises
  nothing of its own: a value is returned as it is; after \<open>SyntaxError\<close> or \<open>ValueError\<close>
  it returns \<open>None\<close> and prints nothing, the option editor treats the text as a scalar
  and prompts with the stored text itself as the current value; after \<open>TypeError\<close>,
  \<open>MemoryError\<close> or \<open>RecursionError\<close> it prints the cause and exits with status 1.
\<close>

theorem C3_decoding_total:
  "(\<forall>v. literal_eval rt text = Inr v \<longrightarrow> evaluate_value rt text w = (Inr (Some v), w))
   \<and> (\<forall>m. literal_eval rt text = Inl (SyntaxError m) \<or> literal_eval rt text = Inl (ValueError m) \<longrightarrow>
          evaluate_value rt text w = (Inr None, w) \<and> value_kind None = Scalar \<and>
          modify_branch rt ed config section option prompts limits text w =
            (case modify_value rt (get_prompt prompts ''value'' ''value'') 0 text None limits w of
               (Inl e, w2) \<Rightarrow> (Inl e, config, w2)
             | (Inr v, w2) \<Rightarrow> store_and_write config section option v w2))
   \<and> (\<forall>m. literal_eval rt text = Inl (TypeError m) \<or> literal_eval rt text = Inl (MemoryError m)
            \<or> literal_eval rt text = Inl (RecursionError m) \<longrightarrow>
          evaluate_value rt text w = (Inl (SystemExit 1), print m w))"
proof (intro conjI allI impI)
  fix v assume "literal_eval rt text = Inr v"
  then show "evaluate_value rt text w = (Inr (Some v), w)"
    by (simp add: evaluate_value_def)
next
  fix m
  assume a: "literal_eval rt text = Inl (SyntaxError m) \<or> literal_eval rt text = Inl (ValueError m)"
  then show e: "evaluate_value rt text w = (Inr None, w)"
    by (auto simp: evaluate_value_def)
  show "value_kind None = Scalar" by (simp add: value_kind_def)
  from e show "modify_branch rt ed config section option prompts limits text w =
            (case modify_value rt (get_prompt prompts ''value'' ''value'') 0 text None limits w of
               (Inl e, w2) \<Rightarrow> (Inl e, config, w2)
             | (Inr v, w2) \<Rightarrow> store_and_write config section option v w2)"
    by (rule modify_branch_scalar)
next
  fix m
  assume "literal_eval rt text = Inl (TypeError m) \<or> literal_eval rt text = Inl (MemoryError m)
            \<or> literal_eval rt text = Inl (RecursionError m)"
  then show "evaluate_value rt text w = (Inl (SystemExit 1), print m w)"
    by (auto simp: evaluate_value_def)
qed
















end
